theory Spec2Isabelle
  imports Complex_Main
begin

section \<open>Python control flow: values, exceptions and statements\<close>

text \<open>
  The serving code of the repository (\<^verbatim>\<open>app/api.py\<close>, \<^verbatim>\<open>src/predict.py\<close>,
  \<^verbatim>\<open>src/utils.py\<close>, \<^verbatim>\<open>src/preprocessing.py\<close>) is embedded statement by statement.

  An exception is kept by the two things the code looks at: which \<^verbatim>\<open>except\<close> clause
  catches it, and the text \<^verbatim>\<open>str(e)\<close>. \<open>ValueError m\<close> is an instance of
  \<^verbatim>\<open>ValueError\<close> or of a subclass, \<open>HTTPException c d\<close> is FastAPI's exception with
  its status code and detail, and \<open>OtherException m\<close> is an instance of any other class
  derived from \<^verbatim>\<open>Exception\<close> (\<^verbatim>\<open>TypeError\<close>, \<^verbatim>\<open>IndexError\<close>, \<^verbatim>\<open>NameError\<close>,
  \<^verbatim>\<open>RuntimeError\<close>, ...).
\<close>

datatype exc =
    ValueError string
  | OtherException string
  | HTTPException nat string

text \<open>
  A statement run in a state ends in one of three ways: it completes and control goes on
  to the next statement (\<open>Normal\<close>, with the value of the expression when there is one),
  it executes \<^verbatim>\<open>return\<close> (\<open>Return\<close>), or it raises (\<open>Raise\<close>).
\<close>

datatype ('v, 'r) res = Normal 'v | Return 'r | Raise exc

type_synonym ('v, 'r, 's) stmt = "'s \<Rightarrow> ('v, 'r) res \<times> 's"

definition seq :: "('v, 'r, 's) stmt \<Rightarrow> ('v \<Rightarrow> ('w, 'r, 's) stmt) \<Rightarrow> ('w, 'r, 's) stmt" where
  \<comment> \<open>\<^verbatim>\<open>x = m; f(x)\<close>: the rest runs only when \<open>m\<close> completes normally.\<close>
  "seq m f s =
     (case m s of
        (Normal v, s') \<Rightarrow> f v s'
      | (Return r, s') \<Rightarrow> (Return r, s')
      | (Raise e, s') \<Rightarrow> (Raise e, s'))"

definition skip :: "'v \<Rightarrow> ('v, 'r, 's) stmt" where
  "skip v s = (Normal v, s)"

definition return_stmt :: "'r \<Rightarrow> ('v, 'r, 's) stmt" where
  "return_stmt r s = (Return r, s)"

definition raise :: "exc \<Rightarrow> ('v, 'r, 's) stmt" where
  "raise e s = (Raise e, s)"

definition effect :: "('s \<Rightarrow> 's) \<Rightarrow> (unit, 'r, 's) stmt" where
  \<comment> \<open>A call that only changes the state and cannot raise.\<close>
  "effect f s = (Normal (), f s)"

definition try_except :: "('v, 'r, 's) stmt \<Rightarrow> (exc \<Rightarrow> ('v, 'r, 's) stmt) \<Rightarrow> ('v, 'r, 's) stmt" where
  \<comment> \<open>\<^verbatim>\<open>try: body  except ... as e: handler(e)\<close>, for handlers that together catch
      every class derived from \<^verbatim>\<open>Exception\<close>.\<close>
  "try_except body handler s =
     (case body s of
        (Raise e, s') \<Rightarrow> handler e s'
      | (Normal v, s') \<Rightarrow> (Normal v, s')
      | (Return r, s') \<Rightarrow> (Return r, s'))"

definition call :: "('v, 'r, 's) stmt \<Rightarrow> ('r option, 'q, 's) stmt" where
  \<comment> \<open>A call expression \<^verbatim>\<open>f(...)\<close>, given the body of \<open>f\<close>: the value is what the body
      returns, or \<^verbatim>\<open>None\<close> when control falls off the end of the body; an exception
      propagates into the caller.\<close>
  "call body s =
     (case body s of
        (Return r, s') \<Rightarrow> (Normal (Some r), s')
      | (Normal v, s') \<Rightarrow> (Normal None, s')
      | (Raise e, s') \<Rightarrow> (Raise e, s'))"

definition call_opt :: "('v, 'r option, 's) stmt \<Rightarrow> ('r option, 'q, 's) stmt" where
  \<comment> \<open>The same, for a function whose \<^verbatim>\<open>return\<close> may itself hand on \<^verbatim>\<open>None\<close>.\<close>
  "call_opt body s =
     (case body s of
        (Return r, s') \<Rightarrow> (Normal r, s')
      | (Normal v, s') \<Rightarrow> (Normal None, s')
      | (Raise e, s') \<Rightarrow> (Raise e, s'))"

definition falls_through :: "('v, 'r, 's) stmt \<Rightarrow> 's \<Rightarrow> bool" where
  \<comment> \<open>Control reaches the statement that follows.\<close>
  "falls_through m s = (case fst (m s) of Normal _ \<Rightarrow> True | Return _ \<Rightarrow> False | Raise _ \<Rightarrow> False)"

text \<open>
  \<^verbatim>\<open>str(e)\<close>. A status code has three digits; Starlette prints an \<^verbatim>\<open>HTTPException\<close>
  as \<^verbatim>\<open>"<status>: <detail>"\<close>.
\<close>

definition digit :: "nat \<Rightarrow> char" where
  "digit n = ''0123456789'' ! (n mod 10)"

definition str_exc :: "exc \<Rightarrow> string" where
  "str_exc e =
     (case e of
        ValueError m \<Rightarrow> m
      | OtherException m \<Rightarrow> m
      | HTTPException c d \<Rightarrow> [digit (c div 100), digit (c div 10), digit c] @ '': '' @ d)"

section \<open>Strings\<close>

text \<open>
  \<^verbatim>\<open>str.lower()\<close> on the letters A to Z; every other character of the model's
  alphabet is left as it is. The names the validators compare with are spelled in ASCII
  letters, and no character outside A to Z lower-cases to one of their letters.
\<close>

definition ascii_uppercase :: string where
  "ascii_uppercase = ''ABCDEFGHIJKLMNOPQRSTUVWXYZ''"

definition ascii_lowercase :: string where
  "ascii_lowercase = ''abcdefghijklmnopqrstuvwxyz''"

definition lower_char :: "char \<Rightarrow> char" where
  "lower_char c =
     (case map_of (zip ascii_uppercase ascii_lowercase) c of Some d \<Rightarrow> d | None \<Rightarrow> c)"

definition lower :: "string \<Rightarrow> string" where
  "lower s = map lower_char s"

section \<open>The request schema (app/api.py, PredictionInput)\<close>

text \<open>
  A request after pydantic has parsed the six fields into their declared types. A payload
  with a missing field or a value that does not parse into the declared type has no value
  of this type. \<open>bmi\<close> is a Python float; the validator only compares it with 10 and 50,
  so it is modelled as a real number (a NaN, on which both comparisons are false, and
  an infinity are rejected by line 53 as any other out-of-range value is).
\<close>

record PredictionInput =
  age :: int
  bmi :: real
  children :: int
  smoker :: bool
  region :: string
  gender :: string

definition validate_age :: "int \<Rightarrow> string + int" where
  "validate_age v =
     (if \<not> (0 \<le> v \<and> v \<le> 100) then Inl ''Age must be between 0 and 100'' else Inr v)"

definition validate_bmi :: "real \<Rightarrow> string + real" where
  "validate_bmi v =
     (if \<not> (10 \<le> v \<and> v \<le> 50) then Inl ''BMI must be between 10 and 50'' else Inr v)"

definition validate_children :: "int \<Rightarrow> string + int" where
  "validate_children v =
     (if \<not> (0 \<le> v \<and> v \<le> 10) then Inl ''Number of children must be between 0 and 10''
      else Inr v)"

definition valid_regions :: "string list" where
  "valid_regions = [''northeast'', ''northwest'', ''southeast'', ''southwest'']"

definition valid_genders :: "string list" where
  "valid_genders = [''male'', ''female'']"

definition validate_region :: "string \<Rightarrow> string + string" where
  "validate_region v =
     (if lower v \<notin> set valid_regions
      then Inl ''Region must be one of ['northeast', 'northwest', 'southeast', 'southwest']''
      else Inr (lower v))"

definition validate_gender :: "string \<Rightarrow> string + string" where
  "validate_gender v =
     (if lower v \<notin> set valid_genders
      then Inl ''Gender must be one of ['male', 'female']''
      else Inr (lower v))"

text \<open>
  pydantic runs the validator of every field, in the order the fields are declared,
  collects the \<^verbatim>\<open>ValueError\<close>s with the field's name, and builds the object only when
  there is none.
\<close>

fun field_error :: "string \<Rightarrow> string + 'a \<Rightarrow> (string \<times> string) list" where
  "field_error name (Inl m) = [(name, m)]"
| "field_error name (Inr v) = []"

definition validate_PredictionInput :: "PredictionInput \<Rightarrow> (string \<times> string) list + PredictionInput" where
  "validate_PredictionInput r =
     (case (validate_age (age r), validate_bmi (bmi r), validate_children (children r),
            validate_region (region r), validate_gender (gender r)) of
        (Inr a, Inr b, Inr c, Inr rg, Inr g) \<Rightarrow>
          Inr \<lparr>age = a, bmi = b, children = c, smoker = smoker r, region = rg, gender = g\<rparr>
      | (a, b, c, rg, g) \<Rightarrow>
          Inl (field_error ''age'' a @ field_error ''bmi'' b @ field_error ''children'' c @
               field_error ''region'' rg @ field_error ''gender'' g))"

text \<open>
  The rules as the specification words them: the three numeric ranges, and region and
  gender equal to a member of the enumeration when case is ignored.
\<close>

definition same_ignoring_case :: "string \<Rightarrow> string \<Rightarrow> bool" where
  "same_ignoring_case a b = (lower a = lower b)"

definition documented_regions :: "string list" where
  "documented_regions = [''northeast'', ''northwest'', ''southeast'', ''southwest'']"

definition documented_genders :: "string list" where
  "documented_genders = [''male'', ''female'']"

definition within_documented_rules :: "PredictionInput \<Rightarrow> bool" where
  "within_documented_rules r =
     (0 \<le> age r \<and> age r \<le> 100 \<and> 10 \<le> bmi r \<and> bmi r \<le> 50 \<and>
      0 \<le> children r \<and> children r \<le> 10 \<and>
      list_ex (same_ignoring_case (region r)) documented_regions \<and>
      list_ex (same_ignoring_case (gender r)) documented_genders)"

section \<open>Process-wide state\<close>

text \<open>
  The string \<^verbatim>\<open>datetime.now().isoformat()\<close> is kept as the instant it renders.
\<close>

datatype isotime = Isoformat real

text \<open>
  An entry of the log: an error line, an info line, or the audit line of
  \<^verbatim>\<open>log_model_access\<close> with its timestamp, user id, model version and action.
\<close>

datatype log_entry =
    Error_line string
  | Info_line string
  | Model_access isotime string string string

datatype cell = Num real | Bool bool | Str string

text \<open>
  A data frame: the cells of each column, by column name. The frames of the serving
  path are built by \<^verbatim>\<open>pd.DataFrame([input_data.dict()])\<close> and have one row.
\<close>

type_synonym frame = "string \<rightharpoonup> cell list"

text \<open>
  The loaded model: \<^verbatim>\<open>model.predict(data)\<close>, which returns a numeric sequence or
  raises, and the attributes \<^verbatim>\<open>version\<close> and \<^verbatim>\<open>metadata\<close>, \<open>None\<close> when the object
  has no attribute of that name.
\<close>

record loaded_model =
  model_predict :: "frame \<Rightarrow> exc + real list"
  version :: "string option"
  metadata :: "(string \<rightharpoonup> string) option"

text \<open>
  The module-level globals: the three Prometheus metrics of \<^verbatim>\<open>utils.py\<close>, the metrics
  sent to mlflow, the log, the global \<^verbatim>\<open>model\<close> of \<^verbatim>\<open>api.py\<close> (\<open>None\<close> until
  \<^verbatim>\<open>startup_event\<close> assigns it), and the clock: \<open>time_source s n\<close> is what the
  \<open>n\<close>-th reading of a clock returns, \<open>reads\<close> counts the readings made.
\<close>

record state =
  PREDICTION_COUNTER :: nat
  PREDICTION_LATENCY :: "real list"
  DATA_VALIDATION_ERRORS :: nat
  mlflow_metrics :: "(string \<times> real) list"
  logs :: "log_entry list"
  model :: "loaded_model option"
  time_source :: "nat \<Rightarrow> real"
  reads :: nat

definition read_clock :: "(real, 'r, state) stmt" where
  \<comment> \<open>\<^verbatim>\<open>time.time()\<close>, \<^verbatim>\<open>datetime.now()\<close> and the timer of the histogram.\<close>
  "read_clock s = (Normal (time_source s (reads s)), s\<lparr>reads := Suc (reads s)\<rparr>)"

definition eval :: "exc + 'v \<Rightarrow> ('v, 'r, 's) stmt" where
  \<comment> \<open>An expression that has a value or raises, and leaves the state as it is.\<close>
  "eval x s = (case x of Inl e \<Rightarrow> (Raise e, s) | Inr v \<Rightarrow> (Normal v, s))"

definition logger_error :: "string \<Rightarrow> (unit, 'r, state) stmt" where
  "logger_error msg = effect (\<lambda>s. s\<lparr>logs := logs s @ [Error_line msg]\<rparr>)"

definition logger_info :: "string \<Rightarrow> (unit, 'r, state) stmt" where
  "logger_info msg = effect (\<lambda>s. s\<lparr>logs := logs s @ [Info_line msg]\<rparr>)"

definition PREDICTION_COUNTER_inc :: "(unit, 'r, state) stmt" where
  "PREDICTION_COUNTER_inc = effect (\<lambda>s. s\<lparr>PREDICTION_COUNTER := PREDICTION_COUNTER s + 1\<rparr>)"

definition DATA_VALIDATION_ERRORS_inc :: "(unit, 'r, state) stmt" where
  "DATA_VALIDATION_ERRORS_inc =
     effect (\<lambda>s. s\<lparr>DATA_VALIDATION_ERRORS := DATA_VALIDATION_ERRORS s + 1\<rparr>)"

definition PREDICTION_LATENCY_observe :: "real \<Rightarrow> (unit, 'r, state) stmt" where
  "PREDICTION_LATENCY_observe d =
     effect (\<lambda>s. s\<lparr>PREDICTION_LATENCY := PREDICTION_LATENCY s @ [d]\<rparr>)"

definition PREDICTION_LATENCY_time :: "('v, 'r, state) stmt \<Rightarrow> ('v, 'r, state) stmt" where
  \<comment> \<open>\<^verbatim>\<open>with PREDICTION_LATENCY.time(): body\<close>. The timer reads the clock on entry and
      again on exit, however the body ends, and observes the difference, not below 0.\<close>
  "PREDICTION_LATENCY_time body s =
     (let start = time_source s (reads s);
          (r, s1) = body (s\<lparr>reads := Suc (reads s)\<rparr>);
          finish = time_source s1 (reads s1)
      in (r, s1\<lparr>reads := Suc (reads s1),
                PREDICTION_LATENCY := PREDICTION_LATENCY s1 @ [max (finish - start) 0]\<rparr>))"

definition mlflow_log_metric :: "string \<Rightarrow> real \<Rightarrow> (unit, 'r, state) stmt" where
  "mlflow_log_metric key v = effect (\<lambda>s. s\<lparr>mlflow_metrics := mlflow_metrics s @ [(key, v)]\<rparr>)"

section \<open>src/utils.py\<close>

definition log_model_access :: "string \<Rightarrow> string \<Rightarrow> string \<Rightarrow> (unit, 'r, state) stmt" where
  "log_model_access user_id model_version_label action =
     seq read_clock (\<lambda>now.
     effect (\<lambda>s. s\<lparr>logs := logs s @
                     [Model_access (Isoformat now) user_id model_version_label action]\<rparr>))"

definition required_columns :: "string list" where
  "required_columns = [''age'', ''bmi'', ''children'', ''smoker'', ''region'', ''gender'']"

fun number_of :: "cell \<Rightarrow> real option" where
  "number_of (Num x) = Some x"
| "number_of (Bool b) = Some (if b then 1 else 0)"
| "number_of (Str t) = None"

fun numbers :: "cell list \<Rightarrow> real list option" where
  "numbers [] = Some []"
| "numbers (c # cs) =
     (case (number_of c, numbers cs) of
        (Some x, Some xs) \<Rightarrow> Some (x # xs)
      | _ \<Rightarrow> None)"

definition column_min :: "frame \<Rightarrow> string \<Rightarrow> exc + real option" where
  \<comment> \<open>\<^verbatim>\<open>data[col].min()\<close>, as far as the comparison that follows needs it: the least
      value of a numeric column, \<open>None\<close> for the NaN of a column with no row, and an
      error for a missing column (\<^verbatim>\<open>KeyError\<close>) or a column holding a string
      (\<^verbatim>\<open>TypeError\<close>, raised by \<^verbatim>\<open>min\<close> or by the comparison with a number; the
      wording of the message varies with the operands).\<close>
  "column_min data col =
     (case data col of
        None \<Rightarrow> Inl (OtherException ([CHR 0x27] @ col @ [CHR 0x27]))
      | Some cells \<Rightarrow>
          (case numbers cells of
             None \<Rightarrow>
               Inl (OtherException
                 ([CHR 0x27] @ ''<=' not supported between instances of 'int' and 'str'' @
                  [CHR 0x27]))
           | Some [] \<Rightarrow> Inr None
           | Some (x # xs) \<Rightarrow> Inr (Some (fold min xs x))))"

definition between :: "real \<Rightarrow> real option \<Rightarrow> real \<Rightarrow> bool" where
  \<comment> \<open>\<^verbatim>\<open>lo <= m <= hi\<close>; false for NaN.\<close>
  "between lo m hi = (case m of None \<Rightarrow> False | Some x \<Rightarrow> lo \<le> x \<and> x \<le> hi)"

definition validate_input_data :: "frame \<Rightarrow> (unit, bool, state) stmt" where
  "validate_input_data data =
     try_except
       (seq (if \<not> list_all (\<lambda>col. data col \<noteq> None) required_columns
             then seq DATA_VALIDATION_ERRORS_inc (\<lambda>_. return_stmt False)
             else skip ()) (\<lambda>_.
        seq (eval (column_min data ''age'')) (\<lambda>age_min.
        seq (if \<not> between 0 age_min 100
             then seq DATA_VALIDATION_ERRORS_inc (\<lambda>_. return_stmt False)
             else skip ()) (\<lambda>_.
        seq (eval (column_min data ''bmi'')) (\<lambda>bmi_min.
        seq (if \<not> between 10 bmi_min 50
             then seq DATA_VALIDATION_ERRORS_inc (\<lambda>_. return_stmt False)
             else skip ()) (\<lambda>_.
        seq (eval (column_min data ''children'')) (\<lambda>children_min.
        seq (if \<not> between 0 children_min 10
             then seq DATA_VALIDATION_ERRORS_inc (\<lambda>_. return_stmt False)
             else skip ()) (\<lambda>_.
        return_stmt True))))))))
       (\<lambda>e.
        seq (logger_error (''Data validation error: '' @ str_exc e)) (\<lambda>_.
        seq DATA_VALIDATION_ERRORS_inc (\<lambda>_.
        return_stmt False)))"

definition monitor_prediction :: "(unit, 'r, state) stmt \<Rightarrow> (unit, 'r option, state) stmt" where
  \<comment> \<open>The body of \<^verbatim>\<open>wrapper\<close>; \<open>func\<close> is the body that \<^verbatim>\<open>func(*args, **kwargs)\<close>
      runs. The wrapper returns the value of that call.\<close>
  "monitor_prediction func =
     seq PREDICTION_COUNTER_inc (\<lambda>_.
     PREDICTION_LATENCY_time
       (seq (call func) (\<lambda>v. return_stmt v)))"

section \<open>src/predict.py\<close>

definition MODEL_NAME :: string where
  "MODEL_NAME = ''health_claim_cost_model''"

definition get_latest_model :: "(string \<Rightarrow> exc + loaded_model) \<Rightarrow> (unit, loaded_model, state) stmt" where
  \<comment> \<open>\<open>load_model_uri\<close> is \<^verbatim>\<open>mlflow.pyfunc.load_model\<close> against the registry.\<close>
  "get_latest_model load_model_uri =
     try_except
       (seq (eval (load_model_uri (''models:/'' @ MODEL_NAME @ ''/Production''))) (\<lambda>m.
        seq (log_model_access ''prediction_service'' ''production_model'' ''model_loaded'') (\<lambda>_.
        return_stmt m)))
       (\<lambda>e.
        seq (logger_error (''Error loading production model: '' @ str_exc e)) (\<lambda>_.
        raise e))"

definition predict_first :: "loaded_model \<Rightarrow> frame \<Rightarrow> (unit, real list, state) stmt" where
  \<comment> \<open>Lines 87 to 113 of \<^verbatim>\<open>predict\<close>: the first \<^verbatim>\<open>try\<close> statement.\<close>
  "predict_first m data =
     try_except
       (seq (call (validate_input_data data)) (\<lambda>valid.
        seq (if valid \<noteq> Some True then raise (ValueError ''Invalid input data format'')
             else skip ()) (\<lambda>_.
        seq (eval (model_predict m data)) (\<lambda>predictions.
        seq (log_model_access ''prediction_service'' ''production_model''
               ''prediction_success'') (\<lambda>_.
        return_stmt predictions)))))
       (\<lambda>e.
        seq (logger_error (''Prediction error: '' @ str_exc e)) (\<lambda>_.
        seq (log_model_access ''prediction_service'' ''production_model''
               (''prediction_error: '' @ str_exc e)) (\<lambda>_.
        raise e)))"

definition predict_second :: "loaded_model \<Rightarrow> frame \<Rightarrow> (unit, real list, state) stmt" where
  \<comment> \<open>Lines 114 to 121 of \<^verbatim>\<open>predict\<close>: the second \<^verbatim>\<open>try\<close> statement.\<close>
  "predict_second m data =
     try_except
       (seq (mlflow_log_metric ''prediction_requests'' 1) (\<lambda>_.
        seq (eval (model_predict m data)) (\<lambda>predictions.
        return_stmt predictions)))
       (\<lambda>e.
        seq (mlflow_log_metric ''prediction_errors'' 1) (\<lambda>_.
        raise e))"

definition predict_body :: "loaded_model \<Rightarrow> frame \<Rightarrow> (unit, real list, state) stmt" where
  "predict_body m data = seq (predict_first m data) (\<lambda>_. predict_second m data)"

definition predict :: "loaded_model \<Rightarrow> frame \<Rightarrow> (unit, real list option, state) stmt" where
  \<comment> \<open>\<^verbatim>\<open>@monitor_prediction def predict(model, data)\<close>: the name \<^verbatim>\<open>predict\<close> is bound to
      the wrapper.\<close>
  "predict m data = monitor_prediction (predict_body m data)"

section \<open>app/api.py\<close>

record PredictionOutput =
  prediction :: real
  model_version :: string
  prediction_time :: isotime

record health =
  status :: string
  timestamp :: isotime

definition DataFrame_of :: "PredictionInput \<Rightarrow> frame" where
  \<comment> \<open>\<^verbatim>\<open>pd.DataFrame([input_data.dict()])\<close>: one row, one column for each field.\<close>
  "DataFrame_of i =
     [''age'' \<mapsto> [Num (of_int (age i))],
      ''bmi'' \<mapsto> [Num (bmi i)],
      ''children'' \<mapsto> [Num (of_int (children i))],
      ''smoker'' \<mapsto> [Bool (smoker i)],
      ''region'' \<mapsto> [Str (region i)],
      ''gender'' \<mapsto> [Str (gender i)]]"

definition global_model :: "(loaded_model, 'r, state) stmt" where
  \<comment> \<open>Reading the global \<^verbatim>\<open>model\<close>: a \<^verbatim>\<open>NameError\<close> while nothing has assigned it.\<close>
  "global_model s =
     (case model s of
        None \<Rightarrow> (Raise (OtherException ''name 'model' is not defined''), s)
      | Some m \<Rightarrow> (Normal m, s))"

definition first_float :: "real list option \<Rightarrow> exc + real" where
  \<comment> \<open>\<^verbatim>\<open>float(prediction[0])\<close>.\<close>
  "first_float pred =
     (case pred of
        None \<Rightarrow> Inl (OtherException ([CHR 0x27] @ ''NoneType' object is not subscriptable''))
      | Some [] \<Rightarrow> Inl (OtherException ''index 0 is out of bounds for axis 0 with size 0'')
      | Some (p # ps) \<Rightarrow> Inr p)"

definition getattr_version :: "loaded_model \<Rightarrow> string" where
  \<comment> \<open>\<^verbatim>\<open>getattr(model, 'version', 'unknown')\<close>.\<close>
  "getattr_version m = (case version m of None \<Rightarrow> ''unknown'' | Some v \<Rightarrow> v)"

definition metadata_get :: "loaded_model \<Rightarrow> string \<Rightarrow> string \<Rightarrow> exc + string" where
  \<comment> \<open>\<^verbatim>\<open>model.metadata.get(key, fallback)\<close>; the \<^verbatim>\<open>AttributeError\<close>'s message starts
      with the name of the model's class, left out here.\<close>
  "metadata_get m key fallback =
     (case metadata m of
        None \<Rightarrow> Inl (OtherException (''object has no attribute 'metadata'' @ [CHR 0x27]))
      | Some d \<Rightarrow> Inr (case d key of None \<Rightarrow> fallback | Some v \<Rightarrow> v))"

definition startup_event :: "(string \<Rightarrow> exc + loaded_model) \<Rightarrow> (unit, unit, state) stmt" where
  "startup_event load_model_uri =
     try_except
       (seq (call (get_latest_model load_model_uri)) (\<lambda>m.
        seq (effect (\<lambda>s. s\<lparr>model := m\<rparr>)) (\<lambda>_.
        logger_info ''Model loaded successfully on startup'')))
       (\<lambda>e.
        seq (logger_error (''Error loading model on startup: '' @ str_exc e)) (\<lambda>_.
        raise e))"

definition health_check :: "(unit, health, state) stmt" where
  "health_check =
     seq read_clock (\<lambda>now.
     return_stmt \<lparr>status = ''healthy'', timestamp = Isoformat now\<rparr>)"

definition make_prediction_first :: "PredictionInput \<Rightarrow> (unit, PredictionOutput, state) stmt" where
  \<comment> \<open>Lines 127 to 150 of \<^verbatim>\<open>make_prediction\<close>: the first \<^verbatim>\<open>try\<close> statement.\<close>
  "make_prediction_first input_data =
     try_except
       (seq (skip (DataFrame_of input_data)) (\<lambda>data.
        seq read_clock (\<lambda>start_time.
        seq global_model (\<lambda>m.
        seq (call_opt (predict m data)) (\<lambda>pred.
        seq read_clock (\<lambda>end_time.
        seq (PREDICTION_LATENCY_observe (end_time - start_time)) (\<lambda>_.
        seq (eval (first_float pred)) (\<lambda>p.
        seq global_model (\<lambda>m'.
        seq read_clock (\<lambda>now.
        return_stmt \<lparr>prediction = p, model_version = getattr_version m',
                      prediction_time = Isoformat now\<rparr>))))))))))
       (\<lambda>e.
        case e of
          ValueError msg \<Rightarrow>
            seq (logger_error (''Validation error: '' @ str_exc e)) (\<lambda>_.
            raise (HTTPException 400 (str_exc e)))
        | _ \<Rightarrow>
            seq (logger_error (''Prediction error: '' @ str_exc e)) (\<lambda>_.
            raise (HTTPException 500 (str_exc e))))"

definition missing_prediction_time :: exc where
  \<comment> \<open>\<^verbatim>\<open>PredictionOutput(prediction=..., model_version=...)\<close> lacks the required field
      \<^verbatim>\<open>prediction_time\<close>: pydantic raises a \<^verbatim>\<open>ValidationError\<close>, a \<^verbatim>\<open>ValueError\<close>.\<close>
  "missing_prediction_time =
     ValueError (''1 validation error for PredictionOutput'' @ [CHR 0x0A] @
                 ''prediction_time'' @ [CHR 0x0A] @
                 ''  field required (type=value_error.missing)'')"

definition make_prediction_second :: "PredictionInput \<Rightarrow> (unit, PredictionOutput, state) stmt" where
  \<comment> \<open>Lines 151 to 167 of \<^verbatim>\<open>make_prediction\<close>: the second \<^verbatim>\<open>try\<close> statement.\<close>
  "make_prediction_second input_data =
     try_except
       (seq (skip (DataFrame_of input_data)) (\<lambda>data.
        seq (call (validate_input_data data)) (\<lambda>valid.
        seq (if valid \<noteq> Some True then raise (HTTPException 400 ''Invalid input data format'')
             else skip ()) (\<lambda>_.
        seq global_model (\<lambda>m.
        seq (call_opt (predict m data)) (\<lambda>pred.
        seq (eval (first_float pred)) (\<lambda>p.
        seq global_model (\<lambda>m'.
        seq (eval (metadata_get m' ''mlflow.modelVersion'' ''unknown'')) (\<lambda>v.
        raise missing_prediction_time)))))))))
       (\<lambda>e. raise (HTTPException 500 (str_exc e)))"

definition make_prediction :: "PredictionInput \<Rightarrow> (unit, PredictionOutput, state) stmt" where
  "make_prediction input_data =
     seq (make_prediction_first input_data) (\<lambda>_. make_prediction_second input_data)"

text \<open>
  What FastAPI does around the two handlers. The body of \<^verbatim>\<open>POST /predict\<close> is validated
  against \<^verbatim>\<open>PredictionInput\<close> before the handler is called: on a validation error the
  handler does not run and the response is 422 with the list of errors as its detail. An
  \<^verbatim>\<open>HTTPException\<close> raised by a handler becomes a response with its status code and
  detail, any other exception a 500, a returned value a 200. A \<^verbatim>\<open>None\<close> returned
  where the response model is \<^verbatim>\<open>PredictionOutput\<close> fails the response validation (500).
\<close>

datatype body =
    Prediction_json PredictionOutput
  | Health_json health
  | Detail string
  | Validation_errors "(string \<times> string) list"
  | Null
  | Internal_Server_Error

datatype response = Response (status_code: nat) (content: body)

datatype request = GET_health | POST_predict PredictionInput

definition get_health :: "state \<Rightarrow> response \<times> state" where
  "get_health s =
     (case (call health_check :: (health option, unit, state) stmt) s of
        (Normal (Some h), s') \<Rightarrow> (Response 200 (Health_json h), s')
      | (Normal None, s') \<Rightarrow> (Response 200 Null, s')
      | (Raise (HTTPException c d), s') \<Rightarrow> (Response c (Detail d), s')
      | (_, s') \<Rightarrow> (Response 500 Internal_Server_Error, s'))"

definition post_predict :: "PredictionInput \<Rightarrow> state \<Rightarrow> response \<times> state" where
  "post_predict payload s =
     (case validate_PredictionInput payload of
        Inl errors \<Rightarrow> (Response 422 (Validation_errors errors), s)
      | Inr input_data \<Rightarrow>
          (case (call (make_prediction input_data)
                  :: (PredictionOutput option, unit, state) stmt) s of
             (Normal (Some out), s') \<Rightarrow> (Response 200 (Prediction_json out), s')
           | (Raise (HTTPException c d), s') \<Rightarrow> (Response c (Detail d), s')
           | (_, s') \<Rightarrow> (Response 500 Internal_Server_Error, s')))"

definition handle_request :: "request \<Rightarrow> state \<Rightarrow> response \<times> state" where
  "handle_request req s =
     (case req of
        GET_health \<Rightarrow> get_health s
      | POST_predict payload \<Rightarrow> post_predict payload s)"

section \<open>src/preprocessing.py\<close>

text \<open>
  \<^verbatim>\<open>preprocess_data\<close> is a sequence of calls into pandas, scikit-learn and mlflow. The
  objects of these libraries are values of a type \<open>'o\<close>, their state (fitted
  transformers, the parameters logged to the mlflow run) is a world \<open>'w\<close>, and each
  library call is a parameter that returns a value or raises and may change the world.
\<close>

type_synonym ('a, 'w) extern = "'w \<Rightarrow> (exc + 'a) \<times> 'w"

definition extern :: "('a, 'w) extern \<Rightarrow> ('a, 'r, 'w) stmt" where
  "extern f w = (case f w of (Inl e, w') \<Rightarrow> (Raise e, w') | (Inr v, w') \<Rightarrow> (Normal v, w'))"

datatype param = Text string | Count int | Names "string list"

record ('o, 'w) library =
  hash_data :: "'o \<Rightarrow> (string, 'w) extern"
  log_param :: "string \<Rightarrow> param \<Rightarrow> (unit, 'w) extern"
  len :: "'o \<Rightarrow> (nat, 'w) extern"
  len_columns :: "'o \<Rightarrow> (nat, 'w) extern"
  mean_numeric_only :: "'o \<Rightarrow> ('o, 'w) extern"
  fillna :: "'o \<Rightarrow> 'o \<Rightarrow> ('o, 'w) extern"
  StandardScaler :: "('o, 'w) extern"
  OneHotEncoder_drop_first :: "('o, 'w) extern"
  Pipeline :: "(string \<times> 'o) list \<Rightarrow> ('o, 'w) extern"
  ColumnTransformer :: "(string \<times> 'o \<times> string list) list \<Rightarrow> ('o, 'w) extern"
  drop_column :: "'o \<Rightarrow> string \<Rightarrow> ('o, 'w) extern"
  getitem :: "'o \<Rightarrow> string \<Rightarrow> ('o, 'w) extern"
  train_test_split :: "'o \<Rightarrow> 'o \<Rightarrow> real \<Rightarrow> int \<Rightarrow> ('o \<times> 'o \<times> 'o \<times> 'o, 'w) extern"
  fit_transform :: "'o \<Rightarrow> 'o \<Rightarrow> ('o, 'w) extern"
  transform :: "'o \<Rightarrow> 'o \<Rightarrow> ('o, 'w) extern"
  unique_strs :: "'o \<Rightarrow> (string list, 'w) extern"
  DataFrame :: "'o \<Rightarrow> string list \<Rightarrow> ('o, 'w) extern"
  log_model :: "'o \<Rightarrow> string \<Rightarrow> (unit, 'w) extern"

definition TARGET :: string where
  "TARGET = ''claim_amount''"

definition RANDOM_STATE :: int where
  "RANDOM_STATE = 42"

definition TEST_SIZE :: real where
  "TEST_SIZE = 2 / 10"

definition create_preprocessing_pipeline ::
    "('o, 'w) library \<Rightarrow> (unit, 'o \<times> string list \<times> string list, 'w) stmt" where
  "create_preprocessing_pipeline lib =
     (let numeric_features = [''age'', ''bmi''];
          categorical_features = [''smoker'', ''region'', ''gender'']
      in seq (extern (StandardScaler lib)) (\<lambda>scaler.
         seq (extern (Pipeline lib [(''scaler'', scaler)])) (\<lambda>numeric_transformer.
         seq (extern (OneHotEncoder_drop_first lib)) (\<lambda>onehot.
         seq (extern (Pipeline lib [(''onehot'', onehot)])) (\<lambda>categorical_transformer.
         seq (extern (ColumnTransformer lib
                [(''num'', numeric_transformer, numeric_features),
                 (''cat'', categorical_transformer, categorical_features)])) (\<lambda>preprocessor.
         return_stmt (preprocessor, numeric_features, categorical_features)))))))"

fun categorical_columns ::
    "('o, 'w) library \<Rightarrow> 'o \<Rightarrow> string list \<Rightarrow> string list \<Rightarrow> (string list, 'r, 'w) stmt" where
  \<comment> \<open>The \<^verbatim>\<open>for feature in categorical_features\<close> loop of lines 76 to 78;
      \<open>unique_strs\<close> gives the \<^verbatim>\<open>str\<close> of each value of \<^verbatim>\<open>X_train[feature].unique()\<close>.\<close>
  "categorical_columns lib X_train [] categorical_cols = skip categorical_cols"
| "categorical_columns lib X_train (feature # features) categorical_cols =
     seq (extern (getitem lib X_train feature)) (\<lambda>column.
     seq (extern (unique_strs lib column)) (\<lambda>unique_values.
     categorical_columns lib X_train features
       (categorical_cols @ map (\<lambda>val. feature @ ''_'' @ val) (tl unique_values))))"

definition preprocess_data_with ::
    "('o \<Rightarrow> 'o \<Rightarrow> (unit, 'o \<times> 'o \<times> 'o \<times> 'o \<times> 'o, 'w) stmt) \<Rightarrow>
     ('o, 'w) library \<Rightarrow> 'o \<Rightarrow> bool \<Rightarrow> (unit, 'o \<times> 'o \<times> 'o \<times> 'o \<times> 'o, 'w) stmt" where
  \<comment> \<open>\<^verbatim>\<open>preprocess_data\<close> with the statements that follow the \<^verbatim>\<open>return\<close> of line 92
      given as \<open>trailing\<close>, which may use the names \<^verbatim>\<open>X_train\<close> and \<^verbatim>\<open>X_test\<close>.\<close>
  "preprocess_data_with trailing lib df0 track_mlflow =
     seq (if track_mlflow
          then seq (extern (hash_data lib df0)) (\<lambda>h.
               seq (extern (log_param lib ''data_version'' (Text h))) (\<lambda>_.
               seq (extern (len lib df0)) (\<lambda>n.
               seq (extern (log_param lib ''n_samples'' (Count (int n)))) (\<lambda>_.
               seq (extern (len_columns lib df0)) (\<lambda>k.
               extern (log_param lib ''n_features'' (Count (int k - 1))))))))
          else skip ()) (\<lambda>_.
     seq (extern (mean_numeric_only lib df0)) (\<lambda>means.
     seq (extern (fillna lib df0 means)) (\<lambda>df.
     seq (call (create_preprocessing_pipeline lib)) (\<lambda>pipeline.
     seq (case pipeline of
            None \<Rightarrow> raise (OtherException ''cannot unpack non-iterable NoneType object'')
          | Some p \<Rightarrow> skip p) (\<lambda>(preprocessor, numeric_features, categorical_features).
     seq (extern (drop_column lib df TARGET)) (\<lambda>X.
     seq (extern (getitem lib df TARGET)) (\<lambda>y.
     seq (extern (train_test_split lib X y TEST_SIZE RANDOM_STATE))
       (\<lambda>(X_train, X_test, y_train, y_test).
     seq (extern (fit_transform lib preprocessor X_train)) (\<lambda>X_train_transformed.
     seq (extern (transform lib preprocessor X_test)) (\<lambda>X_test_transformed.
     seq (categorical_columns lib X_train categorical_features []) (\<lambda>categorical_cols.
     seq (skip (numeric_features @ categorical_cols)) (\<lambda>feature_names.
     seq (extern (DataFrame lib X_train_transformed feature_names)) (\<lambda>X_train_transformed.
     seq (extern (DataFrame lib X_test_transformed feature_names)) (\<lambda>X_test_transformed.
     seq (if track_mlflow
          then seq (extern (log_param lib ''preprocessing_steps''
                      (Text ''fillna,standardization,onehot''))) (\<lambda>_.
               seq (extern (log_param lib ''numeric_features'' (Names numeric_features))) (\<lambda>_.
               seq (extern (log_param lib ''categorical_features''
                      (Names categorical_features))) (\<lambda>_.
               extern (log_model lib preprocessor ''preprocessor''))))
          else skip ()) (\<lambda>_.
     seq (return_stmt
            (X_train_transformed, X_test_transformed, y_train, y_test, preprocessor))
       (\<lambda>_ :: unit.
     trailing X_train X_test))))))))))))))))"

definition preprocess_data_trailing ::
    "('o, 'w) library \<Rightarrow> 'o \<Rightarrow> 'o \<Rightarrow> (unit, 'o \<times> 'o \<times> 'o \<times> 'o \<times> 'o, 'w) stmt" where
  \<comment> \<open>Lines 93 to 96: two parameters are logged, then the \<^verbatim>\<open>return\<close> evaluates
      \<^verbatim>\<open>X_train_scaled\<close>, a name that nothing binds.\<close>
  "preprocess_data_trailing lib X_train X_test =
     seq (extern (len lib X_train)) (\<lambda>n.
     seq (extern (log_param lib ''train_size'' (Count (int n)))) (\<lambda>_.
     seq (extern (len lib X_test)) (\<lambda>n'.
     seq (extern (log_param lib ''test_size'' (Count (int n')))) (\<lambda>_.
     raise (OtherException ''name 'X_train_scaled' is not defined'')))))"

definition preprocess_data ::
    "('o, 'w) library \<Rightarrow> 'o \<Rightarrow> bool \<Rightarrow> (unit, 'o \<times> 'o \<times> 'o \<times> 'o \<times> 'o, 'w) stmt" where
  "preprocess_data lib = preprocess_data_with (preprocess_data_trailing lib) lib"

section \<open>Derived notions used in the statements\<close>

definition in_range :: "frame \<Rightarrow> string \<Rightarrow> real \<Rightarrow> real \<Rightarrow> bool" where
  "in_range data col lo hi =
     (case column_min data col of
        Inr (Some x) \<Rightarrow> lo \<le> x \<and> x \<le> hi
      | Inr None \<Rightarrow> False
      | Inl e \<Rightarrow> False)"

definition structurally_valid :: "frame \<Rightarrow> bool" where
  \<comment> \<open>The frames \<^verbatim>\<open>validate_input_data\<close> returns \<^verbatim>\<open>True\<close> on
      (lemma \<open>validate_input_data_result\<close>).\<close>
  "structurally_valid data =
     (list_all (\<lambda>col. data col \<noteq> None) required_columns \<and>
      in_range data ''age'' 0 100 \<and> in_range data ''bmi'' 10 50 \<and>
      in_range data ''children'' 0 10)"

definition normalized :: "PredictionInput \<Rightarrow> PredictionInput" where
  \<comment> \<open>The request with region and gender in lower case.\<close>
  "normalized r = r\<lparr>region := lower (region r), gender := lower (gender r)\<rparr>"


definition prediction_fields :: "response \<Rightarrow> (real \<times> string) option" where
  \<comment> \<open>The \<^verbatim>\<open>prediction\<close> and \<^verbatim>\<open>model_version\<close> fields of a prediction response.\<close>
  "prediction_fields resp =
     (case content resp of
        Prediction_json out \<Rightarrow> Some (prediction out, model_version out)
      | Health_json h \<Rightarrow> None
      | Detail d \<Rightarrow> None
      | Validation_errors errors \<Rightarrow> None
      | Null \<Rightarrow> None
      | Internal_Server_Error \<Rightarrow> None)"

definition outcome_of :: "loaded_model option \<Rightarrow> PredictionInput \<Rightarrow> nat \<times> (real \<times> string) option" where
  \<comment> \<open>Status and prediction fields of the answer to a request that passes the schema, as
      a function of the request and the global \<^verbatim>\<open>model\<close> alone
      (lemma \<open>post_predict_outcome\<close>).\<close>
  "outcome_of mo r =
     (case mo of
        None \<Rightarrow> (500, None)
      | Some m \<Rightarrow>
          (case model_predict m (DataFrame_of (normalized r)) of
             Inl e \<Rightarrow> (case e of ValueError msg \<Rightarrow> 400 | OtherException msg \<Rightarrow> 500
                        | HTTPException c d \<Rightarrow> 500, None)
           | Inr [] \<Rightarrow> (500, None)
           | Inr (p # ps) \<Rightarrow> (200, Some (p, getattr_version m))))"

subsection \<open>Concrete inputs\<close>

definition example_request :: PredictionInput where
  \<comment> \<open>The example of \<^verbatim>\<open>PredictionInput.Config.schema_extra\<close>.\<close>
  "example_request =
     \<lparr>age = 35, bmi = 51 / 2, children = 2, smoker = False,
      region = ''southwest'', gender = ''female''\<rparr>"

definition initial_state :: state where
  "initial_state =
     \<lparr>PREDICTION_COUNTER = 0, PREDICTION_LATENCY = [], DATA_VALIDATION_ERRORS = 0,
      mlflow_metrics = [], logs = [], model = None, time_source = (\<lambda>n. real n), reads = 0\<rparr>"

definition stub_model :: loaded_model where
  \<comment> \<open>A model that predicts 7000 for every frame and has a \<^verbatim>\<open>version\<close>.\<close>
  "stub_model = \<lparr>model_predict = (\<lambda>data. Inr [7000]), version = Some ''3'', metadata = None\<rparr>"

definition unversioned_model :: loaded_model where
  "unversioned_model = \<lparr>model_predict = (\<lambda>data. Inr [7000]), version = None, metadata = None\<rparr>"

definition raising_model :: "exc \<Rightarrow> loaded_model" where
  "raising_model e = \<lparr>model_predict = (\<lambda>data. Inl e), version = Some ''3'', metadata = None\<rparr>"

definition serving :: "loaded_model \<Rightarrow> state" where
  "serving m = initial_state\<lparr>model := Some m\<rparr>"

definition two_row_frame :: frame where
  \<comment> \<open>Two rows; the second is out of range in age, bmi and children.\<close>
  "two_row_frame =
     [''age'' \<mapsto> [Num 30, Num 150],
      ''bmi'' \<mapsto> [Num 22, Num 95],
      ''children'' \<mapsto> [Num 1, Num 40],
      ''smoker'' \<mapsto> [Bool False, Bool True],
      ''region'' \<mapsto> [Str ''southwest'', Str ''northeast''],
      ''gender'' \<mapsto> [Str ''female'', Str ''male'']]"

section \<open>Basic facts\<close>

lemmas lower_simps = lower_def lower_char_def ascii_uppercase_def ascii_lowercase_def

lemmas stmt_defs = seq_def skip_def return_stmt_def raise_def effect_def try_except_def
  call_def call_opt_def eval_def

lemmas io_defs = read_clock_def logger_error_def logger_info_def PREDICTION_COUNTER_inc_def
  DATA_VALIDATION_ERRORS_inc_def PREDICTION_LATENCY_observe_def mlflow_log_metric_def
  log_model_access_def

lemmas validator_defs = validate_PredictionInput_def validate_age_def validate_bmi_def
  validate_children_def validate_region_def validate_gender_def

subsection \<open>Control flow\<close>

lemma seq_return_stmt: "seq (return_stmt r) k = return_stmt r"
  by (rule ext) (simp add: seq_def return_stmt_def)

lemma return_never_falls: "\<not> falls_through (return_stmt r) s"
  by (simp add: falls_through_def return_stmt_def)

lemma seq_never_falls:
  assumes k: "\<And>v s'. \<not> falls_through (k v) s'"
  shows "\<not> falls_through (seq m k) s"
proof -
  obtain r s' where ms: "m s = (r, s')" by (cases "m s")
  show ?thesis
  proof (cases r)
    case (Normal v)
    then show ?thesis using k [of v s'] ms by (simp add: falls_through_def seq_def)
  next
    case (Return x)
    then show ?thesis using ms by (simp add: falls_through_def seq_def)
  next
    case (Raise e)
    then show ?thesis using ms by (simp add: falls_through_def seq_def)
  qed
qed

lemma seq_first_only:
  assumes "\<not> falls_through m s"
  shows "seq m (\<lambda>_. k) s = m s"
proof -
  obtain r s' where ms: "m s = (r, s')" by (cases "m s")
  show ?thesis
    using assms ms by (cases r) (simp_all add: falls_through_def seq_def)
qed

subsection \<open>The schema\<close>

lemma in_regions_iff:
  "list_ex (same_ignoring_case v) documented_regions \<longleftrightarrow> lower v \<in> set valid_regions"
  by (simp add: documented_regions_def valid_regions_def same_ignoring_case_def lower_simps)

lemma in_genders_iff:
  "list_ex (same_ignoring_case v) documented_genders \<longleftrightarrow> lower v \<in> set valid_genders"
  by (simp add: documented_genders_def valid_genders_def same_ignoring_case_def lower_simps)

lemma validate_accepts:
  "within_documented_rules r \<Longrightarrow> validate_PredictionInput r = Inr (normalized r)"
  by (simp add: within_documented_rules_def in_regions_iff in_genders_iff validator_defs
      normalized_def)

lemma validate_rejects:
  "\<not> within_documented_rules r \<Longrightarrow>
     \<exists>errors. errors \<noteq> [] \<and> validate_PredictionInput r = Inl errors"
  by (auto simp add: within_documented_rules_def in_regions_iff in_genders_iff validator_defs)

lemma example_request_within_rules: "within_documented_rules example_request"
  by (simp add: within_documented_rules_def example_request_def documented_regions_def
      documented_genders_def same_ignoring_case_def)

lemma normalized_example_request: "normalized example_request = example_request"
  by (simp add: normalized_def example_request_def lower_simps)

subsection \<open>The structural validator\<close>

lemma validate_input_data_result:
  "fst (validate_input_data data s) = Return (structurally_valid data)"
  unfolding validate_input_data_def structurally_valid_def in_range_def between_def
    stmt_defs io_defs
  by (auto split: sum.splits option.splits)

lemma validate_input_data_valid:
  "structurally_valid data \<Longrightarrow> validate_input_data data s = (Return True, s)"
  unfolding validate_input_data_def structurally_valid_def in_range_def between_def
    stmt_defs io_defs
  by (auto split: sum.splits option.splits)

lemma validate_input_data_frame:
  "PREDICTION_COUNTER (snd (validate_input_data data s)) = PREDICTION_COUNTER s"
  "PREDICTION_LATENCY (snd (validate_input_data data s)) = PREDICTION_LATENCY s"
  "mlflow_metrics (snd (validate_input_data data s)) = mlflow_metrics s"
  "model (snd (validate_input_data data s)) = model s"
  "time_source (snd (validate_input_data data s)) = time_source s"
  "reads (snd (validate_input_data data s)) = reads s"
  unfolding validate_input_data_def stmt_defs io_defs
  by (auto split: sum.splits option.splits)

lemma call_validate:
  "call (validate_input_data data) s =
     (Normal (Some (structurally_valid data)), snd (validate_input_data data s))"
  using validate_input_data_result [of data s]
  by (cases "validate_input_data data s") (simp add: call_def)

lemma validated_frame_valid:
  "within_documented_rules r \<Longrightarrow> structurally_valid (DataFrame_of (normalized r))"
  by (simp add: within_documented_rules_def structurally_valid_def in_range_def column_min_def
      DataFrame_of_def required_columns_def normalized_def)

lemma example_frame_valid: "structurally_valid (DataFrame_of example_request)"
  using validated_frame_valid [OF example_request_within_rules]
  by (simp add: normalized_example_request)

subsection \<open>The prediction executor\<close>

lemma predict_first_ok:
  assumes "structurally_valid data" and "model_predict m data = Inr ps"
  shows "predict_first m data s =
           (Return ps,
            s\<lparr>logs := logs s @ [Model_access (Isoformat (time_source s (reads s)))
                 ''prediction_service'' ''production_model'' ''prediction_success''],
              reads := Suc (reads s)\<rparr>)"
  using assms
  by (simp add: predict_first_def try_except_def seq_def call_validate validate_input_data_valid
      skip_def eval_def log_model_access_def read_clock_def effect_def return_stmt_def)

lemma predict_first_error:
  assumes "structurally_valid data" and "model_predict m data = Inl e"
  shows "predict_first m data s =
           (Raise e,
            s\<lparr>logs := logs s @ [Error_line (''Prediction error: '' @ str_exc e),
                 Model_access (Isoformat (time_source s (reads s)))
                 ''prediction_service'' ''production_model''
                 (''prediction_error: '' @ str_exc e)],
              reads := Suc (reads s)\<rparr>)"
  using assms
  by (simp add: predict_first_def try_except_def seq_def call_validate validate_input_data_valid
      skip_def eval_def log_model_access_def read_clock_def effect_def return_stmt_def
      logger_error_def raise_def)

lemma predict_first_invalid:
  assumes "\<not> structurally_valid data"
  shows "predict_first m data s =
           (Raise (ValueError ''Invalid input data format''),
            (snd (validate_input_data data s))
             \<lparr>logs := logs (snd (validate_input_data data s)) @
                 [Error_line ''Prediction error: Invalid input data format'',
                 Model_access (Isoformat (time_source s (reads s)))
                 ''prediction_service'' ''production_model''
                 ''prediction_error: Invalid input data format''],
              reads := Suc (reads s)\<rparr>)"
  using assms
  by (simp add: predict_first_def try_except_def seq_def call_validate validate_input_data_frame
      skip_def eval_def log_model_access_def read_clock_def effect_def return_stmt_def
      logger_error_def raise_def str_exc_def)

lemma predict_first_never_falls_through:
  "\<not> falls_through (predict_first m data) s"
proof (cases "structurally_valid data")
  case True
  then show ?thesis
    by (cases "model_predict m data")
       (simp_all add: falls_through_def predict_first_ok predict_first_error)
next
  case False
  then show ?thesis by (simp add: falls_through_def predict_first_invalid)
qed

lemma predict_body_eq: "predict_body m data s = predict_first m data s"
  unfolding predict_body_def
  by (rule seq_first_only) (rule predict_first_never_falls_through)

lemma predict_unfold:
  "predict m data s =
     (case predict_first m data
             (s\<lparr>PREDICTION_COUNTER := PREDICTION_COUNTER s + 1, reads := Suc (reads s)\<rparr>) of
        (r, s') \<Rightarrow>
          (case r of Return ps \<Rightarrow> Return (Some ps) | Raise e \<Rightarrow> Raise e
                   | Normal v \<Rightarrow> Return None,
           s'\<lparr>reads := Suc (reads s'),
              PREDICTION_LATENCY := PREDICTION_LATENCY s' @
                [max (time_source s' (reads s') - time_source s (reads s)) 0]\<rparr>))"
  unfolding predict_def monitor_prediction_def PREDICTION_LATENCY_time_def
  by (simp add: seq_def PREDICTION_COUNTER_inc_def effect_def call_def predict_body_eq
      return_stmt_def split: prod.splits res.splits)

lemma predict_ok:
  assumes "structurally_valid data" and "model_predict m data = Inr ps"
  shows "predict m data s =
           (Return (Some ps),
            s\<lparr>PREDICTION_COUNTER := PREDICTION_COUNTER s + 1,
              logs := logs s @ [Model_access (Isoformat (time_source s (Suc (reads s))))
                 ''prediction_service'' ''production_model'' ''prediction_success''],
              reads := Suc (Suc (Suc (reads s))),
              PREDICTION_LATENCY := PREDICTION_LATENCY s @
                [max (time_source s (Suc (Suc (reads s))) - time_source s (reads s)) 0]\<rparr>)"
  using assms by (simp add: predict_unfold predict_first_ok)

lemma predict_error:
  assumes "structurally_valid data" and "model_predict m data = Inl e"
  shows "predict m data s =
           (Raise e,
            s\<lparr>PREDICTION_COUNTER := PREDICTION_COUNTER s + 1,
              logs := logs s @ [Error_line (''Prediction error: '' @ str_exc e),
                 Model_access (Isoformat (time_source s (Suc (reads s))))
                 ''prediction_service'' ''production_model''
                 (''prediction_error: '' @ str_exc e)],
              reads := Suc (Suc (Suc (reads s))),
              PREDICTION_LATENCY := PREDICTION_LATENCY s @
                [max (time_source s (Suc (Suc (reads s))) - time_source s (reads s)) 0]\<rparr>)"
  using assms by (simp add: predict_unfold predict_first_error)

lemma predict_counts:
  "PREDICTION_COUNTER (snd (predict m data s)) = PREDICTION_COUNTER s + 1 \<and>
   PREDICTION_LATENCY (snd (predict m data s)) = PREDICTION_LATENCY s @
      [max (time_source s (Suc (Suc (reads s))) - time_source s (reads s)) 0]"
proof (cases "structurally_valid data")
  case True
  then show ?thesis
    by (cases "model_predict m data") (simp_all add: predict_ok predict_error)
next
  case False
  then show ?thesis
    by (simp add: predict_unfold predict_first_invalid validate_input_data_frame)
qed


subsection \<open>The endpoint\<close>

lemma make_prediction_first_success:
  assumes "model s = Some m" and "structurally_valid (DataFrame_of i)"
      and "model_predict m (DataFrame_of i) = Inr (p # ps)"
  shows "make_prediction_first i s =
     (Return \<lparr>prediction = p, model_version = getattr_version m,
              prediction_time = Isoformat (time_source s (reads s + 5))\<rparr>,
      s\<lparr>PREDICTION_COUNTER := PREDICTION_COUNTER s + 1,
        logs := logs s @ [Model_access (Isoformat (time_source s (reads s + 2)))
                 ''prediction_service'' ''production_model'' ''prediction_success''],
        reads := reads s + 6,
        PREDICTION_LATENCY := PREDICTION_LATENCY s @
          [max (time_source s (reads s + 3) - time_source s (reads s + 1)) 0,
           time_source s (reads s + 4) - time_source s (reads s)]\<rparr>)"
  using assms
  by (simp add: make_prediction_first_def try_except_def seq_def skip_def read_clock_def
      global_model_def call_opt_def predict_ok PREDICTION_LATENCY_observe_def effect_def
      eval_def first_float_def return_stmt_def eval_nat_numeral)

lemma make_prediction_first_model_error:
  assumes "model s = Some m" and "structurally_valid (DataFrame_of i)"
      and "model_predict m (DataFrame_of i) = Inl e"
  shows "make_prediction_first i s =
     (Raise (HTTPException
               (case e of ValueError msg \<Rightarrow> 400 | OtherException msg \<Rightarrow> 500
                | HTTPException c d \<Rightarrow> 500) (str_exc e)),
      s\<lparr>PREDICTION_COUNTER := PREDICTION_COUNTER s + 1,
        logs := logs s @ [Error_line (''Prediction error: '' @ str_exc e),
                 Model_access (Isoformat (time_source s (reads s + 2)))
                 ''prediction_service'' ''production_model''
                 (''prediction_error: '' @ str_exc e),
                 Error_line ((case e of ValueError msg \<Rightarrow> ''Validation error: ''
                              | OtherException msg \<Rightarrow> ''Prediction error: ''
                              | HTTPException c d \<Rightarrow> ''Prediction error: '') @ str_exc e)],
        reads := reads s + 4,
        PREDICTION_LATENCY := PREDICTION_LATENCY s @
          [max (time_source s (reads s + 3) - time_source s (reads s + 1)) 0]\<rparr>)"
  using assms
  by (cases e)
     (simp_all add: make_prediction_first_def try_except_def seq_def skip_def read_clock_def
      global_model_def call_opt_def predict_error PREDICTION_LATENCY_observe_def effect_def
      eval_def first_float_def return_stmt_def eval_nat_numeral logger_error_def raise_def)

lemma make_prediction_first_no_model:
  assumes "model s = None"
  shows "make_prediction_first i s =
     (Raise (HTTPException 500 ''name 'model' is not defined''),
      s\<lparr>logs := logs s @ [Error_line ''Prediction error: name 'model' is not defined''],
        reads := Suc (reads s)\<rparr>)"
  using assms
  by (simp add: make_prediction_first_def try_except_def seq_def skip_def read_clock_def
      global_model_def logger_error_def effect_def raise_def str_exc_def)

lemma make_prediction_first_empty:
  assumes "model s = Some m" and "structurally_valid (DataFrame_of i)"
      and "model_predict m (DataFrame_of i) = Inr []"
  shows "fst (make_prediction_first i s) =
           Raise (HTTPException 500 ''index 0 is out of bounds for axis 0 with size 0'')
         \<and> model (snd (make_prediction_first i s)) = model s"
  using assms
  by (simp add: make_prediction_first_def try_except_def seq_def skip_def read_clock_def
      global_model_def call_opt_def predict_ok PREDICTION_LATENCY_observe_def effect_def
      eval_def first_float_def return_stmt_def logger_error_def raise_def str_exc_def)

lemma make_prediction_first_never_falls_through:
  "\<not> falls_through (make_prediction_first i) s"
  unfolding falls_through_def make_prediction_first_def try_except_def
  by (auto simp: seq_def skip_def read_clock_def return_stmt_def raise_def logger_error_def
      effect_def split: prod.splits res.splits exc.splits)

lemma make_prediction_eq: "make_prediction i s = make_prediction_first i s"
  unfolding make_prediction_def
  by (rule seq_first_only) (rule make_prediction_first_never_falls_through)

lemma post_predict_valid:
  assumes "within_documented_rules r"
  shows "post_predict r s =
     (case make_prediction_first (normalized r) s of
        (Return out, s') \<Rightarrow> (Response 200 (Prediction_json out), s')
      | (Raise (HTTPException c d), s') \<Rightarrow> (Response c (Detail d), s')
      | (_, s') \<Rightarrow> (Response 500 Internal_Server_Error, s'))"
  using assms
  by (simp add: post_predict_def validate_accepts call_def make_prediction_eq
      split: prod.splits res.splits exc.splits)

lemma post_predict_invalid:
  assumes "\<not> within_documented_rules r"
  shows "\<exists>errors. errors \<noteq> [] \<and> post_predict r s = (Response 422 (Validation_errors errors), s)"
  using validate_rejects [OF assms] by (auto simp: post_predict_def)

lemma post_predict_success:
  assumes "within_documented_rules r" and "model s = Some m"
      and "model_predict m (DataFrame_of (normalized r)) = Inr (p # ps)"
  shows "fst (post_predict r s) =
           Response 200 (Prediction_json \<lparr>prediction = p, model_version = getattr_version m,
              prediction_time = Isoformat (time_source s (reads s + 5))\<rparr>)
         \<and> model (snd (post_predict r s)) = model s"
  using assms
  by (simp add: post_predict_valid make_prediction_first_success validated_frame_valid)

lemma post_predict_model_error:
  assumes "within_documented_rules r" and "model s = Some m"
      and "model_predict m (DataFrame_of (normalized r)) = Inl e"
  shows "fst (post_predict r s) =
           Response (case e of ValueError msg \<Rightarrow> 400 | OtherException msg \<Rightarrow> 500
                     | HTTPException c d \<Rightarrow> 500) (Detail (str_exc e))
         \<and> model (snd (post_predict r s)) = model s
         \<and> Error_line (''Prediction error: '' @ str_exc e)
             \<in> set (logs (snd (post_predict r s)))"
  using assms
  by (simp add: post_predict_valid make_prediction_first_model_error validated_frame_valid)

lemma post_predict_empty:
  assumes "within_documented_rules r" and "model s = Some m"
      and "model_predict m (DataFrame_of (normalized r)) = Inr []"
  shows "fst (post_predict r s) =
           Response 500 (Detail ''index 0 is out of bounds for axis 0 with size 0'')
         \<and> model (snd (post_predict r s)) = model s"
  using assms make_prediction_first_empty [of s m "normalized r"]
  by (cases "make_prediction_first (normalized r) s")
     (simp add: post_predict_valid validated_frame_valid)

lemma post_predict_no_model:
  assumes "within_documented_rules r" and "model s = None"
  shows "fst (post_predict r s) = Response 500 (Detail ''name 'model' is not defined'')
         \<and> model (snd (post_predict r s)) = model s"
  using assms
  by (simp add: post_predict_valid make_prediction_first_no_model)

lemma post_predict_outcome:
  assumes "within_documented_rules r"
  shows "(status_code (fst (post_predict r s)), prediction_fields (fst (post_predict r s)))
           = outcome_of (model s) r
         \<and> model (snd (post_predict r s)) = model s"
proof (cases "model s")
  case None
  then show ?thesis
    using post_predict_no_model [OF assms None]
    by (simp add: outcome_of_def prediction_fields_def)
next
  case (Some m)
  show ?thesis
  proof (cases "model_predict m (DataFrame_of (normalized r))")
    case (Inl e)
    then show ?thesis
      using post_predict_model_error [OF assms Some Inl] Some
      by (simp add: outcome_of_def prediction_fields_def)
  next
    case (Inr ps)
    show ?thesis
    proof (cases ps)
      case Nil
      then show ?thesis
        using post_predict_empty [OF assms Some] Inr Some
        by (simp add: outcome_of_def prediction_fields_def)
    next
      case (Cons p ps')
      then show ?thesis
        using post_predict_success [OF assms Some, of p ps'] Inr Some
        by (simp add: outcome_of_def prediction_fields_def)
    qed
  qed
qed

lemma startup_failure:
  "startup_event (\<lambda>uri. Inl e) s =
     (Raise e,
      s\<lparr>logs := logs s @ [Error_line (''Error loading production model: '' @ str_exc e),
                           Error_line (''Error loading model on startup: '' @ str_exc e)]\<rparr>)"
  by (simp add: startup_event_def get_latest_model_def try_except_def seq_def eval_def call_def
      logger_error_def effect_def raise_def)

subsection \<open>Preprocessing\<close>

lemma preprocess_data_trailing_irrelevant:
  "preprocess_data_with trailing lib df track_mlflow = preprocess_data lib df track_mlflow"
  by (simp add: preprocess_data_def preprocess_data_with_def seq_return_stmt)

lemma preprocess_data_never_falls_through:
  "\<not> falls_through (preprocess_data lib df track_mlflow) w"
  unfolding preprocess_data_def preprocess_data_with_def seq_return_stmt
  by (intro seq_never_falls return_never_falls | simp only: split_def)+


section \<open>The claims\<close>

text \<open>
  Claim C1. A request whose age is in [0, 100], bmi in [10, 50], children in [0, 10] and
  whose region and gender are, case ignored, members of the two enumerations passes the
  validators of \<^verbatim>\<open>PredictionInput\<close>, and the result is the request with region and
  gender in lower case, both then members of the enumerations as spelled. A request that
  breaks any of the rules is rejected as a whole, with at least one error.
\<close>

theorem validation_accepts_exactly_the_documented_requests:
  "(within_documented_rules r \<longrightarrow>
      validate_PredictionInput r =
        Inr (r\<lparr>region := lower (region r), gender := lower (gender r)\<rparr>) \<and>
      lower (region r) \<in> set documented_regions \<and>
      lower (gender r) \<in> set documented_genders) \<and>
   (\<not> within_documented_rules r \<longrightarrow>
      (\<exists>errors. errors \<noteq> [] \<and> validate_PredictionInput r = Inl errors))"
proof (intro conjI impI)
  assume ok: "within_documented_rules r"
  show "validate_PredictionInput r =
          Inr (r\<lparr>region := lower (region r), gender := lower (gender r)\<rparr>)"
    using validate_accepts [OF ok] by (simp add: normalized_def)
  have "lower (region r) \<in> set valid_regions"
    using ok by (simp add: within_documented_rules_def in_regions_iff)
  then show "lower (region r) \<in> set documented_regions"
    by (simp add: valid_regions_def documented_regions_def)
  have "lower (gender r) \<in> set valid_genders"
    using ok by (simp add: within_documented_rules_def in_genders_iff)
  then show "lower (gender r) \<in> set documented_genders"
    by (simp add: valid_genders_def documented_genders_def)
next
  assume "\<not> within_documented_rules r"
  then show "\<exists>errors. errors \<noteq> [] \<and> validate_PredictionInput r = Inl errors"
    by (rule validate_rejects)
qed

theorem validation_accepts_exactly_the_documented_requests_witness:
  "validate_PredictionInput
     \<lparr>age = 35, bmi = 51 / 2, children = 2, smoker = False,
      region = ''SouthWest'', gender = ''FEMALE''\<rparr>
     = Inr \<lparr>age = 35, bmi = 51 / 2, children = 2, smoker = False,
            region = ''southwest'', gender = ''female''\<rparr>
   \<and> (\<exists>errors. errors \<noteq> [] \<and>
         validate_PredictionInput
           \<lparr>age = 150, bmi = 51 / 2, children = 2, smoker = False,
            region = ''SouthWest'', gender = ''FEMALE''\<rparr> = Inl errors)"
proof -
  have good: "within_documented_rules
      \<lparr>age = 35, bmi = 51 / 2, children = 2, smoker = False,
       region = ''SouthWest'', gender = ''FEMALE''\<rparr>"
    by (simp add: within_documented_rules_def documented_regions_def documented_genders_def
        same_ignoring_case_def lower_simps)
  have bad: "\<not> within_documented_rules
      \<lparr>age = 150, bmi = 51 / 2, children = 2, smoker = False,
       region = ''SouthWest'', gender = ''FEMALE''\<rparr>"
    by (simp add: within_documented_rules_def)
  show ?thesis
    using good bad
      validation_accepts_exactly_the_documented_requests
        [of "\<lparr>age = 35, bmi = 51 / 2, children = 2, smoker = False,
              region = ''SouthWest'', gender = ''FEMALE''\<rparr>"]
      validation_accepts_exactly_the_documented_requests
        [of "\<lparr>age = 150, bmi = 51 / 2, children = 2, smoker = False,
              region = ''SouthWest'', gender = ''FEMALE''\<rparr>"]
    by (simp add: lower_simps)
qed


text \<open>
  Claim C2, as the code has it. For a request that passes the schema, when the call of the
  model raises an error \<open>e\<close>, the endpoint answers with an error response whose detail is
  \<^verbatim>\<open>str(e)\<close>, the text of the cause itself, and the same text is written to the log.
  The status is 500, except for a \<^verbatim>\<open>ValueError\<close>, which the handler of line 145 turns
  into a 400.
\<close>

theorem endpoint_reports_the_model_error:
  assumes "within_documented_rules r" and "model s = Some m"
      and "model_predict m (DataFrame_of (normalized r)) = Inl e"
  shows "fst (post_predict r s) =
           Response (case e of ValueError msg \<Rightarrow> 400 | OtherException msg \<Rightarrow> 500
                     | HTTPException c d \<Rightarrow> 500) (Detail (str_exc e))
         \<and> Error_line (''Prediction error: '' @ str_exc e)
             \<in> set (logs (snd (post_predict r s)))"
  using post_predict_model_error [OF assms] by simp

theorem endpoint_reports_the_model_error_witness:
  "fst (post_predict example_request (serving (raising_model (OtherException ''disk failure''))))
     = Response 500 (Detail ''disk failure'')
   \<and> Error_line ''Prediction error: disk failure''
       \<in> set (logs (snd (post_predict example_request
                          (serving (raising_model (OtherException ''disk failure''))))))"
proof -
  have m: "model (serving (raising_model (OtherException ''disk failure'')))
             = Some (raising_model (OtherException ''disk failure''))"
    by (simp add: serving_def)
  have e: "model_predict (raising_model (OtherException ''disk failure''))
             (DataFrame_of (normalized example_request)) = Inl (OtherException ''disk failure'')"
    by (simp add: raising_model_def)
  show ?thesis
    using endpoint_reports_the_model_error [OF example_request_within_rules m e]
    by (simp add: str_exc_def)
qed

text \<open>
  The claim as stated fails: a model that raises \<^verbatim>\<open>ValueError("shape mismatch")\<close> on the
  example request gets the answer 400 with the detail \<^verbatim>\<open>shape mismatch\<close>, which is
  neither a 500 nor opaque.
\<close>

theorem endpoint_echoes_the_cause:
  "fst (post_predict example_request (serving (raising_model (ValueError ''shape mismatch''))))
     = Response 400 (Detail ''shape mismatch'')"
proof -
  have m: "model (serving (raising_model (ValueError ''shape mismatch'')))
             = Some (raising_model (ValueError ''shape mismatch''))"
    by (simp add: serving_def)
  have e: "model_predict (raising_model (ValueError ''shape mismatch''))
             (DataFrame_of (normalized example_request)) = Inl (ValueError ''shape mismatch'')"
    by (simp add: raising_model_def)
  show ?thesis
    using post_predict_model_error [OF example_request_within_rules m e]
    by (simp add: str_exc_def)
qed

text \<open>
  Claim C3. A request with a field outside its range or enumeration is answered with a
  status of the 400 class (FastAPI's 422) and a detail that lists at least one error; the
  handler does not run, so the state, and with it \<^verbatim>\<open>PREDICTION_COUNTER\<close>, is as before.
\<close>

theorem out_of_range_request_is_rejected:
  assumes "\<not> within_documented_rules r"
  shows "(\<exists>errors. errors \<noteq> [] \<and>
            fst (post_predict r s) = Response 422 (Validation_errors errors))
         \<and> 400 \<le> status_code (fst (post_predict r s))
         \<and> status_code (fst (post_predict r s)) < 500
         \<and> snd (post_predict r s) = s
         \<and> PREDICTION_COUNTER (snd (post_predict r s)) = PREDICTION_COUNTER s"
  using post_predict_invalid [OF assms, of s] by auto

theorem out_of_range_request_is_rejected_witness:
  "status_code (fst (post_predict (example_request\<lparr>age := 150\<rparr>) (serving stub_model))) = 422
   \<and> status_code (fst (post_predict (example_request\<lparr>bmi := 5\<rparr>) (serving stub_model))) = 422
   \<and> status_code (fst (post_predict (example_request\<lparr>children := 11\<rparr>) (serving stub_model))) = 422
   \<and> status_code (fst (post_predict (example_request\<lparr>region := ''atlantis''\<rparr>)
        (serving stub_model))) = 422
   \<and> status_code (fst (post_predict (example_request\<lparr>gender := ''x''\<rparr>)
        (serving stub_model))) = 422
   \<and> PREDICTION_COUNTER (snd (post_predict (example_request\<lparr>age := 150\<rparr>)
        (serving stub_model))) = 0"
proof -
  have a: "\<not> within_documented_rules (example_request\<lparr>age := 150\<rparr>)"
    by (simp add: within_documented_rules_def example_request_def)
  have b: "\<not> within_documented_rules (example_request\<lparr>bmi := 5\<rparr>)"
    by (simp add: within_documented_rules_def example_request_def)
  have c: "\<not> within_documented_rules (example_request\<lparr>children := 11\<rparr>)"
    by (simp add: within_documented_rules_def example_request_def)
  have d: "\<not> within_documented_rules (example_request\<lparr>region := ''atlantis''\<rparr>)"
    by (simp add: within_documented_rules_def example_request_def documented_regions_def
        same_ignoring_case_def lower_simps)
  have e: "\<not> within_documented_rules (example_request\<lparr>gender := ''x''\<rparr>)"
    by (simp add: within_documented_rules_def example_request_def documented_genders_def
        same_ignoring_case_def lower_simps)
  have z: "PREDICTION_COUNTER (serving stub_model) = 0"
    by (simp add: serving_def initial_state_def)
  show ?thesis
    using out_of_range_request_is_rejected [OF a, of "serving stub_model"]
      out_of_range_request_is_rejected [OF b, of "serving stub_model"]
      out_of_range_request_is_rejected [OF c, of "serving stub_model"]
      out_of_range_request_is_rejected [OF d, of "serving stub_model"]
      out_of_range_request_is_rejected [OF e, of "serving stub_model"] z
    by auto
qed

text \<open>
  Claim C4, as the code has it. When the frame passes the structural validation and the
  call of the model raises an error \<open>e\<close>, \<^verbatim>\<open>predict\<close> writes the error line with the
  cause to the log, then the audit entry \<^verbatim>\<open>prediction_error: <cause>\<close>, and raises
  \<open>e\<close> itself to its caller: no value is returned in its place.
\<close>

theorem predict_logs_and_reraises_the_model_error:
  assumes "structurally_valid data" and "model_predict m data = Inl e"
  shows "fst (predict m data s) = Raise e
         \<and> logs (snd (predict m data s)) =
             logs s @ [Error_line (''Prediction error: '' @ str_exc e),
                       Model_access (Isoformat (time_source s (Suc (reads s))))
                         ''prediction_service'' ''production_model''
                         (''prediction_error: '' @ str_exc e)]"
  using predict_error [OF assms, of s] by simp

theorem predict_logs_and_reraises_the_model_error_witness:
  "fst (predict (raising_model (OtherException ''disk failure''))
          (DataFrame_of example_request) initial_state) = Raise (OtherException ''disk failure'')
   \<and> logs (snd (predict (raising_model (OtherException ''disk failure''))
          (DataFrame_of example_request) initial_state)) =
        [Error_line ''Prediction error: disk failure'',
         Model_access (Isoformat 1) ''prediction_service'' ''production_model''
           ''prediction_error: disk failure'']"
proof -
  have e: "model_predict (raising_model (OtherException ''disk failure''))
             (DataFrame_of example_request) = Inl (OtherException ''disk failure'')"
    by (simp add: raising_model_def)
  show ?thesis
    using predict_logs_and_reraises_the_model_error [OF example_frame_valid e, of initial_state]
    by (simp add: str_exc_def initial_state_def)
qed

text \<open>
  The claim as stated fails in its second part: when the model raises, no error counter
  moves. \<^verbatim>\<open>DATA_VALIDATION_ERRORS\<close> and the metrics sent to mlflow (the
  \<^verbatim>\<open>prediction_errors\<close> metric of line 120) are as before; only the counter of all
  calls, \<^verbatim>\<open>PREDICTION_COUNTER\<close>, has gone up.
\<close>

theorem model_error_moves_no_error_counter:
  "fst (predict (raising_model (OtherException ''disk failure''))
          (DataFrame_of example_request) initial_state) = Raise (OtherException ''disk failure'')
   \<and> DATA_VALIDATION_ERRORS (snd (predict (raising_model (OtherException ''disk failure''))
          (DataFrame_of example_request) initial_state)) = DATA_VALIDATION_ERRORS initial_state
   \<and> mlflow_metrics (snd (predict (raising_model (OtherException ''disk failure''))
          (DataFrame_of example_request) initial_state)) = mlflow_metrics initial_state
   \<and> PREDICTION_COUNTER (snd (predict (raising_model (OtherException ''disk failure''))
          (DataFrame_of example_request) initial_state)) = PREDICTION_COUNTER initial_state + 1"
proof -
  have e: "model_predict (raising_model (OtherException ''disk failure''))
             (DataFrame_of example_request) = Inl (OtherException ''disk failure'')"
    by (simp add: raising_model_def)
  show ?thesis
    using predict_error [OF example_frame_valid e, of initial_state] by simp
qed

text \<open>
  Claim C5. \<^verbatim>\<open>validate_input_data\<close> looks at the minimum of each numeric column only:
  the frame \<open>two_row_frame\<close> has all required columns and two rows, its minima (30, 22
  and 1) are within the ranges, its second row has age 150, bmi 95 and 40 children, and
  the validator returns \<^verbatim>\<open>True\<close> for it and changes nothing.
\<close>

theorem validate_input_data_checks_only_the_minima:
  "list_all (\<lambda>col. two_row_frame col \<noteq> None) required_columns
   \<and> two_row_frame ''age'' = Some [Num 30, Num 150]
   \<and> two_row_frame ''bmi'' = Some [Num 22, Num 95]
   \<and> two_row_frame ''children'' = Some [Num 1, Num 40]
   \<and> column_min two_row_frame ''age'' = Inr (Some 30)
   \<and> column_min two_row_frame ''bmi'' = Inr (Some 22)
   \<and> column_min two_row_frame ''children'' = Inr (Some 1)
   \<and> validate_input_data two_row_frame s = (Return True, s)"
proof -
  have v: "structurally_valid two_row_frame"
    by (simp add: structurally_valid_def in_range_def column_min_def two_row_frame_def
        required_columns_def)
  show ?thesis
    using validate_input_data_valid [OF v, of s]
    by (simp add: column_min_def two_row_frame_def required_columns_def)
qed

text \<open>
  Claim C6. In every state of the process, whatever the global \<^verbatim>\<open>model\<close> holds (also
  nothing, when no model was loaded), \<^verbatim>\<open>GET /health\<close> answers 200 with the status
  \<^verbatim>\<open>healthy\<close> and the ISO rendering of the current time. It reads the clock once and
  changes nothing else: the model is not used. In particular, when the registry fails
  and \<^verbatim>\<open>startup_event\<close> raises, leaving \<^verbatim>\<open>model\<close> as it was, the health check in
  the state that is left still answers 200.
\<close>

theorem health_check_always_succeeds:
  "fst (handle_request GET_health (s\<lparr>model := mo\<rparr>)) =
     Response 200 (Health_json \<lparr>status = ''healthy'',
                                timestamp = Isoformat (time_source s (reads s))\<rparr>)
   \<and> snd (handle_request GET_health (s\<lparr>model := mo\<rparr>)) = s\<lparr>model := mo, reads := Suc (reads s)\<rparr>
   \<and> fst (startup_event (\<lambda>uri. Inl e) s) = Raise e
   \<and> model (snd (startup_event (\<lambda>uri. Inl e) s)) = model s
   \<and> fst (handle_request GET_health (snd (startup_event (\<lambda>uri. Inl e) s))) =
       Response 200 (Health_json \<lparr>status = ''healthy'',
                                  timestamp = Isoformat (time_source s (reads s))\<rparr>)"
  by (simp add: startup_failure handle_request_def get_health_def health_check_def call_def
      seq_def read_clock_def return_stmt_def)

text \<open>
  Claim C7. The same valid request sent twice, the second time in the state the first
  left behind, gets answers with the same status and the same \<^verbatim>\<open>prediction\<close> and
  \<^verbatim>\<open>model_version\<close>. The model is a function of the frame (it is deterministic) and
  the first request leaves the global \<^verbatim>\<open>model\<close> as it was; the clock readings differ.
\<close>

theorem same_request_twice_same_prediction:
  assumes "within_documented_rules r"
  shows "status_code (fst (post_predict r (snd (post_predict r s))))
           = status_code (fst (post_predict r s))
         \<and> prediction_fields (fst (post_predict r (snd (post_predict r s))))
           = prediction_fields (fst (post_predict r s))
         \<and> model (snd (post_predict r s)) = model s"
proof -
  have m: "model (snd (post_predict r s)) = model s"
    using post_predict_outcome [OF assms, of s] by simp
  have "(status_code (fst (post_predict r (snd (post_predict r s)))),
         prediction_fields (fst (post_predict r (snd (post_predict r s)))))
        = outcome_of (model s) r"
    using post_predict_outcome [OF assms, of "snd (post_predict r s)"] m by simp
  also have "\<dots> = (status_code (fst (post_predict r s)), prediction_fields (fst (post_predict r s)))"
    using post_predict_outcome [OF assms, of s] by simp
  finally show ?thesis using m by simp
qed

theorem same_request_twice_same_prediction_witness:
  "prediction_fields (fst (post_predict example_request (serving stub_model)))
     = Some (7000, ''3'')
   \<and> prediction_fields (fst (post_predict example_request
        (snd (post_predict example_request (serving stub_model))))) = Some (7000, ''3'')
   \<and> status_code (fst (post_predict example_request
        (snd (post_predict example_request (serving stub_model))))) = 200"
proof -
  have m: "model (serving stub_model) = Some stub_model"
    by (simp add: serving_def)
  have p: "model_predict stub_model (DataFrame_of (normalized example_request)) = Inr [7000]"
    by (simp add: stub_model_def)
  have first: "fst (post_predict example_request (serving stub_model)) =
      Response 200 (Prediction_json \<lparr>prediction = 7000, model_version = ''3'',
        prediction_time = Isoformat 5\<rparr>)"
    using post_predict_success [OF example_request_within_rules m p]
    by (simp add: getattr_version_def stub_model_def serving_def initial_state_def)
  show ?thesis
    using same_request_twice_same_prediction
      [OF example_request_within_rules, of "serving stub_model"] first
    by (simp add: prediction_fields_def)
qed


text \<open>
  Claim C8. The second \<^verbatim>\<open>try\<close> statement of \<^verbatim>\<open>make_prediction\<close> (lines 151 to 167)
  and the statements after the first \<^verbatim>\<open>return\<close> of \<^verbatim>\<open>preprocess_data\<close> (lines 93 to
  96) are never executed. In every state and for every input the first \<^verbatim>\<open>try\<close>
  statement of \<^verbatim>\<open>make_prediction\<close> returns or raises, so that the function does the
  same whatever statement follows it; and \<^verbatim>\<open>preprocess_data\<close> returns or raises, and
  does the same whatever is written after line 92.
\<close>

theorem trailing_blocks_are_unreachable:
  "\<not> falls_through (make_prediction_first input_data) s
   \<and> (\<forall>rest. seq (make_prediction_first input_data) (\<lambda>_. rest) s
               = make_prediction_first input_data s)
   \<and> make_prediction input_data s = make_prediction_first input_data s
   \<and> \<not> falls_through (preprocess_data lib df track_mlflow) w
   \<and> (\<forall>trailing. preprocess_data_with trailing lib df track_mlflow w
                   = preprocess_data lib df track_mlflow w)"
proof (intro conjI allI)
  show "\<not> falls_through (make_prediction_first input_data) s"
    by (rule make_prediction_first_never_falls_through)
  show "seq (make_prediction_first input_data) (\<lambda>_. rest) s
          = make_prediction_first input_data s" for rest
    by (rule seq_first_only) (rule make_prediction_first_never_falls_through)
  show "make_prediction input_data s = make_prediction_first input_data s"
    by (rule make_prediction_eq)
  show "\<not> falls_through (preprocess_data lib df track_mlflow) w"
    by (rule preprocess_data_never_falls_through)
  show "preprocess_data_with trailing lib df track_mlflow w
          = preprocess_data lib df track_mlflow w" for trailing
    by (simp add: preprocess_data_trailing_irrelevant)
qed

text \<open>
  Claim C9. The wrapper of \<^verbatim>\<open>monitor_prediction\<close> increments \<^verbatim>\<open>PREDICTION_COUNTER\<close>
  and reads the timer's start before the body of \<^verbatim>\<open>predict\<close> runs: the body starts in
  the state with the counter already incremented and the clock already read. For every
  call of \<^verbatim>\<open>predict\<close>, whatever the model and the frame (so also when the validation
  fails or the model raises), the counter ends one higher than before the call, and
  exactly one observation is added to the latency histogram: the time from the reading
  before the body to the reading after it.
\<close>

theorem every_call_of_predict_is_counted:
  "PREDICTION_COUNTER (snd (predict m data s)) = PREDICTION_COUNTER s + 1
   \<and> PREDICTION_LATENCY (snd (predict m data s)) =
       PREDICTION_LATENCY s @
         [max (time_source s (Suc (Suc (reads s))) - time_source s (reads s)) 0]
   \<and> predict m data s =
       (case predict_body m data
               (s\<lparr>PREDICTION_COUNTER := PREDICTION_COUNTER s + 1, reads := Suc (reads s)\<rparr>) of
          (r, s') \<Rightarrow>
            (case r of Return ps \<Rightarrow> Return (Some ps) | Raise e \<Rightarrow> Raise e
                     | Normal v \<Rightarrow> Return None,
             s'\<lparr>reads := Suc (reads s'),
                PREDICTION_LATENCY := PREDICTION_LATENCY s' @
                  [max (time_source s' (reads s') - time_source s (reads s)) 0]\<rparr>))"
  using predict_counts [of m data s] predict_unfold [of m data s]
  by (simp add: predict_body_eq)

text \<open>
  Claim C10. When the model returns a prediction for a request that passes the schema,
  the answer is 200 and its \<^verbatim>\<open>model_version\<close> is the model's \<^verbatim>\<open>version\<close> attribute, or
  the string \<^verbatim>\<open>unknown\<close> when the model has no such attribute; and every answer 200 with
  a prediction carries the \<^verbatim>\<open>model_version\<close> so determined by the loaded model.
\<close>

theorem model_version_is_the_attribute_or_unknown:
  "(within_documented_rules r \<and> model s = Some m \<and>
    model_predict m (DataFrame_of (normalized r)) = Inr (p # ps) \<longrightarrow>
      (\<exists>t. fst (post_predict r s) =
         Response 200 (Prediction_json
           \<lparr>prediction = p,
            model_version = (case version m of None \<Rightarrow> ''unknown'' | Some v \<Rightarrow> v),
            prediction_time = Isoformat t\<rparr>)))
   \<and> (fst (post_predict r s) = Response 200 (Prediction_json out) \<longrightarrow>
        (\<exists>m'. model s = Some m' \<and>
           model_version out = (case version m' of None \<Rightarrow> ''unknown'' | Some v \<Rightarrow> v)))"
proof (intro conjI impI)
  assume a: "within_documented_rules r \<and> model s = Some m \<and>
    model_predict m (DataFrame_of (normalized r)) = Inr (p # ps)"
  then show "\<exists>t. fst (post_predict r s) =
         Response 200 (Prediction_json
           \<lparr>prediction = p,
            model_version = (case version m of None \<Rightarrow> ''unknown'' | Some v \<Rightarrow> v),
            prediction_time = Isoformat t\<rparr>)"
    using post_predict_success [of r s m p ps] by (auto simp: getattr_version_def)
next
  assume ok: "fst (post_predict r s) = Response 200 (Prediction_json out)"
  have rules: "within_documented_rules r"
  proof (rule ccontr)
    assume "\<not> within_documented_rules r"
    from post_predict_invalid [OF this, of s] ok show False by auto
  qed
  have "outcome_of (model s) r = (200, Some (prediction out, model_version out))"
    using post_predict_outcome [OF rules, of s] ok by (simp add: prediction_fields_def)
  then show "\<exists>m'. model s = Some m' \<and>
           model_version out = (case version m' of None \<Rightarrow> ''unknown'' | Some v \<Rightarrow> v)"
    by (auto simp: outcome_of_def getattr_version_def
        split: option.splits sum.splits list.splits exc.splits)
qed

theorem model_version_is_the_attribute_or_unknown_witness:
  "(\<exists>t. fst (post_predict example_request (serving unversioned_model)) =
      Response 200 (Prediction_json
        \<lparr>prediction = 7000, model_version = ''unknown'', prediction_time = Isoformat t\<rparr>))
   \<and> (\<exists>t. fst (post_predict example_request (serving stub_model)) =
      Response 200 (Prediction_json
        \<lparr>prediction = 7000, model_version = ''3'', prediction_time = Isoformat t\<rparr>))"
proof -
  have m1: "model (serving unversioned_model) = Some unversioned_model"
    by (simp add: serving_def)
  have p1: "model_predict unversioned_model (DataFrame_of (normalized example_request))
              = Inr [7000]"
    by (simp add: unversioned_model_def)
  have m2: "model (serving stub_model) = Some stub_model"
    by (simp add: serving_def)
  have p2: "model_predict stub_model (DataFrame_of (normalized example_request)) = Inr [7000]"
    by (simp add: stub_model_def)
  have v1: "version unversioned_model = None" by (simp add: unversioned_model_def)
  have v2: "version stub_model = Some ''3''" by (simp add: stub_model_def)
  show ?thesis
    using model_version_is_the_attribute_or_unknown
        [of example_request "serving unversioned_model" unversioned_model 7000 "[]"]
      model_version_is_the_attribute_or_unknown
        [of example_request "serving stub_model" stub_model 7000 "[]"]
      example_request_within_rules m1 p1 m2 p2 v1 v2
    by simp
qed

end
